theory Spec2Isabelle
  imports Complex_Main
begin

section \<open>Request payloads\<close>

text \<open>
  The handlers of \<^verbatim>\<open>server.js\<close> read their arguments from a parsed JSON body. A
  field of the body is any JSON value, or \<^verbatim>\<open>undefined\<close> when it is absent. Amounts
  (\<^verbatim>\<open>betAmount\<close>, \<^verbatim>\<open>amount\<close>) are taken to be JSON numbers and are idealised as exact
  rationals: the rounding of IEEE doubles and the coercion of non-numbers are outside
  this model.
\<close>

datatype jsval =
    JUndefined
  | JNull
  | JBool bool
  | JNum rat
  | JStr string
  | JArr "jsval list"
  | JObj "(string \<times> jsval) list"

datatype exn = TypeError

text \<open>Truthiness, as tested by \<^verbatim>\<open>!iban\<close>.\<close>

fun truthy :: "jsval \<Rightarrow> bool" where
  "truthy JUndefined = False"
| "truthy JNull = False"
| "truthy (JBool b) = b"
| "truthy (JNum n) = (n \<noteq> 0)"
| "truthy (JStr s) = (s \<noteq> [])"
| "truthy (JArr _) = True"
| "truthy (JObj _) = True"

text \<open>
  Property access \<^verbatim>\<open>v.k\<close> for a key that no prototype defines: it throws on
  \<^verbatim>\<open>undefined\<close> and \<^verbatim>\<open>null\<close>, reads the field of an object, and is
  \<^verbatim>\<open>undefined\<close> on every other value.
\<close>

fun get_prop :: "jsval \<Rightarrow> string \<Rightarrow> exn + jsval" where
  "get_prop JUndefined k = Inl TypeError"
| "get_prop JNull k = Inl TypeError"
| "get_prop (JObj fs) k = (case map_of fs k of None \<Rightarrow> Inr JUndefined | Some v \<Rightarrow> Inr v)"
| "get_prop _ k = Inr JUndefined"

section \<open>The in-memory database\<close>

text \<open>
  The objects stored in the three maps. The field \<^verbatim>\<open>id\<close> of a user is \<open>uid\<close>; the
  fields of a bet record and of a transaction carry the prefixes \<open>bet_\<close> and \<open>tx_\<close>,
  since both objects have an \<^verbatim>\<open>id\<close>, a \<^verbatim>\<open>userId\<close> and a \<^verbatim>\<open>timestamp\<close>.
\<close>

record user =
  uid :: string
  name :: string
  email :: string
  phone :: string
  password :: string
  balance :: rat
  totalBet :: rat
  totalWon :: rat
  totalBets :: int
  createdAt :: int
  isActive :: bool

datatype symbol = Cherry | Lemon | Orange | Grapes | Diamond | Star | Seven

text \<open>The object returned by each game function, one constructor per game.\<close>

datatype gameResult =
    NumbersResult bool rat int jsval
  | SlotsResult bool rat "symbol list"
  | WheelResult bool rat rat int
  | CoinResult bool rat string jsval

fun won :: "gameResult \<Rightarrow> bool" where
  "won (NumbersResult w p winningNumber selectedNumber) = w"
| "won (SlotsResult w p syms) = w"
| "won (WheelResult w p multiplier segment) = w"
| "won (CoinResult w p flip choice) = w"

fun prize :: "gameResult \<Rightarrow> rat" where
  "prize (NumbersResult w p winningNumber selectedNumber) = p"
| "prize (SlotsResult w p syms) = p"
| "prize (WheelResult w p multiplier segment) = p"
| "prize (CoinResult w p flip choice) = p"

record betRecord =
  bet_id :: string
  bet_userId :: string
  bet_game :: string
  bet_betAmount :: rat
  bet_result :: rat
  bet_won :: bool
  bet_gameData :: jsval
  bet_resultData :: gameResult
  bet_timestamp :: int

datatype txType = TxDeposit | TxWithdraw

datatype txStatus = Completed | Pending

record transaction =
  tx_id :: string
  tx_userId :: string
  tx_type :: txType
  tx_amount :: rat
  tx_iban :: "jsval option"
  tx_accountName :: "jsval option"
  tx_status :: txStatus
  tx_timestamp :: int

text \<open>
  The three \<^verbatim>\<open>Map\<close>s, in insertion order. \<^verbatim>\<open>Map.prototype.set\<close> replaces the value of
  a key that is present, where it stands, and appends a new key at the end.
\<close>

fun map_set :: "'k \<Rightarrow> 'v \<Rightarrow> ('k \<times> 'v) list \<Rightarrow> ('k \<times> 'v) list" where
  "map_set k v [] = [(k, v)]"
| "map_set k v (p # ps) = (if fst p = k then (k, v) # ps else p # map_set k v ps)"

definition map_values :: "('k \<times> 'v) list \<Rightarrow> 'v list" where
  "map_values m = map snd m"

record state =
  users :: "(string \<times> user) list"
  transactions :: "(string \<times> transaction) list"
  bets :: "(string \<times> betRecord) list"

text \<open>
  What a handler takes from its environment: the successive results of
  \<^verbatim>\<open>Math.random()\<close> inside the game function, the result of \<^verbatim>\<open>generateId()\<close>, and the
  clock read by \<^verbatim>\<open>new Date()\<close> in milliseconds.
\<close>

record env =
  r1 :: rat
  r2 :: rat
  r3 :: rat
  newId :: string
  now :: int



datatype error =
    AccountNotFound
  | BelowMinimum
  | InsufficientBalance
  | InvalidGame
  | MissingDestination
  | InternalError

fun http_status :: "error \<Rightarrow> nat" where
  "http_status AccountNotFound = 404"
| "http_status InternalError = 500"
| "http_status _ = 400"

section \<open>Game logic functions\<close>

definition processNumbersGame :: "rat \<Rightarrow> jsval \<Rightarrow> rat \<Rightarrow> exn + gameResult" where
  "processNumbersGame betAmount gameData r =
     (case get_prop gameData ''selectedNumber'' of
        Inl x \<Rightarrow> Inl x
      | Inr selectedNumber \<Rightarrow>
          (let winningNumber = \<lfloor>r * 25\<rfloor> + 1;
               w = (JNum (of_int winningNumber) = selectedNumber);
               p = (if w then betAmount * 24 else 0)
           in Inr (NumbersResult w p winningNumber selectedNumber)))"

definition symbols :: "symbol list" where
  "symbols = [Cherry, Lemon, Orange, Grapes, Diamond, Star, Seven]"

definition processSlotsGame :: "rat \<Rightarrow> rat \<Rightarrow> rat \<Rightarrow> rat \<Rightarrow> gameResult" where
  "processSlotsGame betAmount ra rb rc =
     (let result1 = symbols ! nat \<lfloor>ra * of_nat (length symbols)\<rfloor>;
          result2 = symbols ! nat \<lfloor>rb * of_nat (length symbols)\<rfloor>;
          result3 = symbols ! nat \<lfloor>rc * of_nat (length symbols)\<rfloor>;
          w = (result1 = result2 \<and> result2 = result3);
          p = (if w then betAmount * 10 else 0)
      in SlotsResult w p [result1, result2, result3])"

definition prizes :: "rat list" where
  "prizes = [2, 0, 3 / 2, 0, 3, 0, 5, 0]"

definition processWheelGame :: "rat \<Rightarrow> rat \<Rightarrow> gameResult" where
  "processWheelGame betAmount r =
     (let prizeIndex = \<lfloor>r * of_nat (length prizes)\<rfloor>;
          multiplier = prizes ! nat prizeIndex;
          w = (multiplier > 0);
          p = betAmount * multiplier
      in WheelResult w p multiplier prizeIndex)"

definition processCoinGame :: "rat \<Rightarrow> jsval \<Rightarrow> rat \<Rightarrow> exn + gameResult" where
  "processCoinGame betAmount gameData r =
     (case get_prop gameData ''choice'' of
        Inl x \<Rightarrow> Inl x
      | Inr choice \<Rightarrow>
          (let flip = (if r < 1 / 2 then ''heads'' else ''tails'');
               w = (choice = JStr flip);
               p = (if w then betAmount * 2 else 0)
           in Inr (CoinResult w p flip choice)))"

section \<open>Place bet\<close>

text \<open>
  The \<^verbatim>\<open>switch (game)\<close> of the handler. An exception thrown by a game function is
  caught by the handler's \<^verbatim>\<open>catch\<close>, which answers with status 500.
\<close>

definition catch500 :: "exn + gameResult \<Rightarrow> error + gameResult" where
  "catch500 x = (case x of Inl _ \<Rightarrow> Inl InternalError | Inr res \<Rightarrow> Inr res)"

definition dispatch :: "env \<Rightarrow> string \<Rightarrow> rat \<Rightarrow> jsval \<Rightarrow> error + gameResult" where
  "dispatch e game betAmount gameData =
     (if game = ''numbers'' then catch500 (processNumbersGame betAmount gameData (r1 e))
      else if game = ''slots'' then Inr (processSlotsGame betAmount (r1 e) (r2 e) (r3 e))
      else if game = ''wheel'' then Inr (processWheelGame betAmount (r1 e))
      else if game = ''coin'' then catch500 (processCoinGame betAmount gameData (r1 e))
      else Inl InvalidGame)"

record betResponse =
  res_result :: gameResult
  res_balance :: rat
  res_totalBet :: rat
  res_totalWon :: rat
  res_totalBets :: int

definition settle :: "user \<Rightarrow> rat \<Rightarrow> gameResult \<Rightarrow> user" where
  "settle u betAmount res =
     (let u1 = u\<lparr>balance := balance u - betAmount,
                 totalBet := totalBet u + betAmount,
                 totalBets := totalBets u + 1\<rparr>
      in if won res
         then u1\<lparr>balance := balance u1 + prize res, totalWon := totalWon u1 + prize res\<rparr>
         else u1)"

definition placeBet ::
  "env \<Rightarrow> string \<Rightarrow> string \<Rightarrow> rat \<Rightarrow> jsval \<Rightarrow> state \<Rightarrow> (error + betResponse) \<times> state" where
  "placeBet e userId game betAmount gameData s =
     (case map_of (users s) userId of
        None \<Rightarrow> (Inl AccountNotFound, s)
      | Some u \<Rightarrow>
          if betAmount < 100 then (Inl BelowMinimum, s)
          else if betAmount > balance u then (Inl InsufficientBalance, s)
          else (case dispatch e game betAmount gameData of
                  Inl err \<Rightarrow> (Inl err, s)
                | Inr res \<Rightarrow>
                    (let u' = settle u betAmount res;
                         betRec = \<lparr>bet_id = newId e,
                                   bet_userId = uid u',
                                   bet_game = game,
                                   bet_betAmount = betAmount,
                                   bet_result = (if won res then prize res else - betAmount),
                                   bet_won = won res,
                                   bet_gameData = gameData,
                                   bet_resultData = res,
                                   bet_timestamp = now e\<rparr>
                     in (Inr \<lparr>res_result = res,
                              res_balance = balance u',
                              res_totalBet = totalBet u',
                              res_totalWon = totalWon u',
                              res_totalBets = totalBets u'\<rparr>,
                         s\<lparr>users := map_set userId u' (users s),
                           bets := map_set (newId e) betRec (bets s)\<rparr>))))"

section \<open>Deposit and withdraw\<close>

record txResponse =
  res_newBalance :: rat
  res_transaction :: transaction

definition deposit ::
  "env \<Rightarrow> string \<Rightarrow> rat \<Rightarrow> state \<Rightarrow> (error + txResponse) \<times> state" where
  "deposit e userId amount s =
     (case map_of (users s) userId of
        None \<Rightarrow> (Inl AccountNotFound, s)
      | Some u \<Rightarrow>
          if amount < 1000 then (Inl BelowMinimum, s)
          else (let u' = u\<lparr>balance := balance u + amount\<rparr>;
                    tx = \<lparr>tx_id = newId e,
                          tx_userId = uid u',
                          tx_type = TxDeposit,
                          tx_amount = amount,
                          tx_iban = None,
                          tx_accountName = None,
                          tx_status = Completed,
                          tx_timestamp = now e\<rparr>
                in (Inr \<lparr>res_newBalance = balance u', res_transaction = tx\<rparr>,
                    s\<lparr>users := map_set userId u' (users s),
                      transactions := map_set (newId e) tx (transactions s)\<rparr>)))"

definition withdraw ::
  "env \<Rightarrow> string \<Rightarrow> rat \<Rightarrow> jsval \<Rightarrow> jsval \<Rightarrow> state \<Rightarrow> (error + txResponse) \<times> state" where
  "withdraw e userId amount iban accountName s =
     (case map_of (users s) userId of
        None \<Rightarrow> (Inl AccountNotFound, s)
      | Some u \<Rightarrow>
          if amount < 1000 then (Inl BelowMinimum, s)
          else if amount > balance u then (Inl InsufficientBalance, s)
          else if \<not> truthy iban \<or> \<not> truthy accountName then (Inl MissingDestination, s)
          else (let u' = u\<lparr>balance := balance u - amount\<rparr>;
                    tx = \<lparr>tx_id = newId e,
                          tx_userId = uid u',
                          tx_type = TxWithdraw,
                          tx_amount = amount,
                          tx_iban = Some iban,
                          tx_accountName = Some accountName,
                          tx_status = Pending,
                          tx_timestamp = now e\<rparr>
                in (Inr \<lparr>res_newBalance = balance u', res_transaction = tx\<rparr>,
                    s\<lparr>users := map_set userId u' (users s),
                      transactions := map_set (newId e) tx (transactions s)\<rparr>)))"

section \<open>Histories\<close>


definition transactionHistory :: "string \<Rightarrow> state \<Rightarrow> transaction list" where
  "transactionHistory userId s =
     sort_key (\<lambda>t. - tx_timestamp t)
       (filter (\<lambda>t. tx_userId t = userId) (map_values (transactions s)))"

section \<open>Sequences of requests\<close>

datatype request =
    PlaceBet string string rat jsval
  | Deposit string rat
  | Withdraw string rat jsval jsval

fun step :: "env \<Rightarrow> request \<Rightarrow> state \<Rightarrow> state" where
  "step e (PlaceBet userId game betAmount gameData) s =
     snd (placeBet e userId game betAmount gameData s)"
| "step e (Deposit userId amount) s = snd (deposit e userId amount s)"
| "step e (Withdraw userId amount iban accountName) s =
     snd (withdraw e userId amount iban accountName s)"



text \<open>The game tags that the \<^verbatim>\<open>switch\<close> of the bet handler recognises.\<close>

definition known_games :: "string set" where
  "known_games = {''numbers'', ''slots'', ''wheel'', ''coin''}"


section \<open>Example data\<close>

text \<open>
  An account as the registration handler creates it (welcome bonus of 100000), alone in
  the database, and an environment whose first random draw is \<open>1 / 4\<close>.
\<close>

definition example_user :: user where
  "example_user =
     \<lparr>uid = ''u1'', name = ''Ana'', email = ''ana@example.com'', phone = ''900000000'',
      password = ''hash'', balance = 100000, totalBet = 0, totalWon = 0, totalBets = 0,
      createdAt = 0, isActive = True\<rparr>"

definition example_state :: state where
  "example_state = \<lparr>users = [(''u1'', example_user)], transactions = [], bets = []\<rparr>"

definition example_env :: env where
  "example_env = \<lparr>r1 = 1 / 4, r2 = 0, r3 = 0, newId = ''id1'', now = 1000\<rparr>"


text \<open>The example account after it has withdrawn all but 500.\<close>

definition low_state :: state where
  "low_state =
     step example_env (Withdraw ''u1'' 99500 (JStr ''AO06'') (JStr ''Ana'')) example_state"

section \<open>Outcomes and ledger properties\<close>








section \<open>More example data\<close>






section \<open>Basic facts\<close>



lemma map_values_map_set_subset:
  "set (map_values (map_set k v m)) \<subseteq> insert v (set (map_values m))"
  by (induction m) (auto simp: map_values_def)





lemma length_symbols: "length symbols = 7"
  by (simp add: symbols_def)










section \<open>The balance is never negative\<close>



section \<open>A failed bet changes nothing\<close>

lemma dispatch_unknown:
  "game \<notin> known_games \<Longrightarrow> dispatch e game betAmount gameData = Inl InvalidGame"
  by (simp add: dispatch_def known_games_def)

lemma placeBet_error_state:
  "fst (placeBet e userId game betAmount gameData s) = Inl err \<Longrightarrow>
   snd (placeBet e userId game betAmount gameData s) = s"
  by (auto simp: placeBet_def Let_def split: option.splits if_splits sum.splits)

text \<open>
  Claim C3. A placeBet request whose stake is below 100, or above the balance, or whose
  game tag is not recognised, returns an error (BelowMinimum, InsufficientBalance and
  InvalidGame, tested in this order) and leaves the whole database as it was: the
  account's balance and statistics are unchanged and no bet record is added. More
  generally, whenever placeBet returns an error the database is unchanged.
\<close>

theorem placeBet_failure_unchanged:
  assumes "map_of (users s) userId = Some u"
  shows "(betAmount < 100 \<or> betAmount > balance u \<or> game \<notin> known_games \<longrightarrow>
            placeBet e userId game betAmount gameData s =
              (Inl (if betAmount < 100 then BelowMinimum
                    else if betAmount > balance u then InsufficientBalance
                    else InvalidGame), s))
         \<and> (\<forall>err. fst (placeBet e userId game betAmount gameData s) = Inl err \<longrightarrow>
                snd (placeBet e userId game betAmount gameData s) = s)"
  using assms placeBet_error_state [of e userId game betAmount gameData s]
  by (auto simp: placeBet_def dispatch_unknown)

theorem placeBet_failure_unchanged_witness:
  "map_of (users example_state) ''u1'' = Some example_user
   \<and> (50::rat) < 100
   \<and> placeBet example_env ''u1'' ''wheel'' 50 JUndefined example_state
       = (Inl BelowMinimum, example_state)
   \<and> 200000 > balance example_user
   \<and> placeBet example_env ''u1'' ''wheel'' 200000 JUndefined example_state
       = (Inl InsufficientBalance, example_state)
   \<and> ''dice'' \<notin> known_games
   \<and> placeBet example_env ''u1'' ''dice'' 100 JUndefined example_state
       = (Inl InvalidGame, example_state)"
proof -
  have h: "map_of (users example_state) ''u1'' = Some example_user"
    by (simp add: example_state_def)
  have b: "balance example_user = 100000" by (simp add: example_user_def)
  have g: "''dice'' \<notin> known_games" by (simp add: known_games_def)
  show ?thesis
    using placeBet_failure_unchanged [OF h, of 50 "''wheel''" example_env JUndefined]
      placeBet_failure_unchanged [OF h, of 200000 "''wheel''" example_env JUndefined]
      placeBet_failure_unchanged [OF h, of 100 "''dice''" example_env JUndefined]
      h b g
    by simp
qed

section \<open>Withdrawals\<close>

lemma low_state_user:
  "map_of (users low_state) ''u1'' = Some (example_user\<lparr>balance := 500\<rparr>)"
  by (simp add: low_state_def withdraw_def example_state_def example_user_def Let_def)

text \<open>
  Claim C7, as stated, fails: the handler tests the minimum of 1000 before it tests the
  balance, so a withdrawal of 700 from a balance of 500 is answered with BelowMinimum,
  not with InsufficientBalance.
\<close>

theorem withdraw_over_balance_counterexample:
  "map_of (users low_state) ''u1'' = Some (example_user\<lparr>balance := 500\<rparr>)
   \<and> (700::rat) > 500
   \<and> fst (withdraw example_env ''u1'' 700 (JStr ''AO06'') (JStr ''Ana'') low_state)
       = Inl BelowMinimum
   \<and> fst (withdraw example_env ''u1'' 700 (JStr ''AO06'') (JStr ''Ana'') low_state)
       \<noteq> Inl InsufficientBalance"
  by (simp add: low_state_user withdraw_def)

text \<open>
  Claim C7, amended. A withdraw request whose amount exceeds the balance is rejected,
  with InsufficientBalance when the amount is at least 1000 and with BelowMinimum when
  it is below 1000; the database, and so the balance and the transaction log, is
  exactly as it was.
\<close>

theorem withdraw_over_balance_rejected:
  assumes "map_of (users s) userId = Some u" and "amount > balance u"
  shows "withdraw e userId amount iban accountName s =
           (Inl (if amount < 1000 then BelowMinimum else InsufficientBalance), s)"
  using assms by (simp add: withdraw_def)

theorem withdraw_over_balance_rejected_witness:
  "map_of (users example_state) ''u1'' = Some example_user
   \<and> 150000 > balance example_user
   \<and> withdraw example_env ''u1'' 150000 (JStr ''AO06'') (JStr ''Ana'') example_state
       = (Inl InsufficientBalance, example_state)"
proof -
  have h: "map_of (users example_state) ''u1'' = Some example_user"
    by (simp add: example_state_def)
  have b: "150000 > balance example_user" by (simp add: example_user_def)
  show ?thesis
    using withdraw_over_balance_rejected [OF h b, of example_env "JStr ''AO06''" "JStr ''Ana''"] h b
    by simp
qed



section \<open>Game resolution\<close>









section \<open>Bet history\<close>





section \<open>Game-specific input\<close>








section \<open>Whole amounts\<close>













end
